theory Spec2Isabelle
  imports Main "HOL-Library.Word"
begin

section \<open>Bytes, errors and the C stream underneath\<close>

type_synonym byte = "8 word"
type_synonym u64 = "64 word"

text \<open>
  What a call can end in besides its result: one of the exception classes of
  \<^verbatim>\<open>pickaxe.hpp\<close> (the file name and the optional detail message are kept, the
  formatting of \<^verbatim>\<open>what()\<close> is not), an execution the C++ standard gives no
  meaning to, or \<^verbatim>\<open>std::terminate\<close> called because the given exception left a
  \<^verbatim>\<open>noexcept\<close> function.
\<close>

datatype undefined_behaviour = OutOfBounds | DivisionByZero | NullStream

datatype error =
    CloseException string
  | WriteException string "string option"
  | ReadException string "string option"
  | InvalidPageSizeException u64
  | Undefined undefined_behaviour
  | Terminate error

text \<open>
  The \<^verbatim>\<open>FILE\<close> of \<^verbatim>\<open><cstdio>\<close> is not part of the repository. It is modelled as a
  test double of a regular file on an LP64 platform: the stored bytes, the file
  position, the two stream indicators, two switches that make the device or the
  close fail, and counters of the calls that reached the device. File positions are
  those a \<^verbatim>\<open>long\<close> can hold.
\<close>

record FILE =
  contents :: "byte list"
  position :: nat
  eof_indicator :: bool
  error_indicator :: bool
  device_fails :: bool
  close_fails :: bool
  reads :: nat
  writes :: nat
  seeks :: nat

definition LONG_MAX :: nat where
  "LONG_MAX = 2 ^ 63 - 1"

definition fopen_wb :: "FILE" where
  "fopen_wb = \<lparr>contents = [], position = 0, eof_indicator = False, error_indicator = False,
     device_fails = False, close_fails = False, reads = 0, writes = 0, seeks = 0\<rparr>"

definition fopen_rb :: "byte list \<Rightarrow> FILE" where
  "fopen_rb bs = \<lparr>contents = bs, position = 0, eof_indicator = False, error_indicator = False,
     device_fails = False, close_fails = False, reads = 0, writes = 0, seeks = 0\<rparr>"

definition feof :: "FILE \<Rightarrow> bool" where
  "feof f = eof_indicator f"

definition ferror :: "FILE \<Rightarrow> bool" where
  "ferror f = error_indicator f"

text \<open>
  \<^verbatim>\<open>fread(buf, 1, n, f)\<close>: the bytes delivered and the stream afterwards. Fewer than
  \<^verbatim>\<open>n\<close> bytes come back only at the end of the file (the end-of-file indicator is
  set) or when the device fails (the error indicator is set).
\<close>

definition fread :: "FILE \<Rightarrow> nat \<Rightarrow> byte list \<times> FILE" where
  "fread f n =
     (if device_fails f then ([], f\<lparr>error_indicator := True, reads := reads f + 1\<rparr>)
      else let got = take n (drop (position f) (contents f))
           in (got, f\<lparr>position := position f + length got,
                       eof_indicator := eof_indicator f \<or> length got < n,
                       reads := reads f + 1\<rparr>))"

text \<open>
  Storing \<^verbatim>\<open>ws\<close> at position \<^verbatim>\<open>p\<close>: a gap left by a seek past the end reads as
  zero bytes.
\<close>

definition store_at :: "byte list \<Rightarrow> nat \<Rightarrow> byte list \<Rightarrow> byte list" where
  "store_at bs p ws = take p bs @ replicate (p - length bs) 0 @ ws @ drop (p + length ws) bs"

text \<open>
  \<^verbatim>\<open>fwrite(data, 1, n, f)\<close>: the number of bytes accepted and the stream afterwards.
  Nothing is accepted when the device fails, and the file does not grow beyond the
  largest offset.
\<close>

definition fwrite :: "FILE \<Rightarrow> byte list \<Rightarrow> nat \<times> FILE" where
  "fwrite f ws =
     (let k = (if device_fails f then 0 else min (length ws) (LONG_MAX - position f));
          accepted = take k ws
      in (k, f\<lparr>contents := (if k = 0 then contents f else store_at (contents f) (position f) accepted),
                position := position f + k,
                error_indicator := error_indicator f \<or> k < length ws,
                writes := writes f + 1\<rparr>))"

text \<open>
  What \<^verbatim>\<open>fwrite\<close> leaves in the file when it accepts \<^verbatim>\<open>ws\<close> at position \<^verbatim>\<open>p\<close>.
\<close>

definition written :: "byte list \<Rightarrow> nat \<Rightarrow> byte list \<Rightarrow> byte list" where
  "written bs p ws = (if ws = [] then bs else store_at bs p ws)"

text \<open>
  \<^verbatim>\<open>fseek(f, off, SEEK_SET)\<close> takes a \<^verbatim>\<open>long\<close>: the \<^verbatim>\<open>uint64_t\<close> the callers pass is
  converted, and a negative offset is refused. The result is the return value (0 on
  success) and the stream afterwards; a successful seek clears the end-of-file
  indicator.
\<close>

definition fseek :: "FILE \<Rightarrow> u64 \<Rightarrow> int \<times> FILE" where
  "fseek f off =
     (if device_fails f \<or> sint off < 0 then (- 1, f\<lparr>seeks := seeks f + 1\<rparr>)
      else (0, f\<lparr>position := nat (sint off), eof_indicator := False, seeks := seeks f + 1\<rparr>))"

definition fclose :: "FILE \<Rightarrow> int" where
  "fclose f = (if close_fails f then - 1 else 0)"

definition fflush :: "FILE \<Rightarrow> int" where
  "fflush f = (if device_fails f then - 1 else 0)"

text \<open>
  \<^verbatim>\<open>memcpy(dest, src + off, n)\<close> out of a buffer of known length: the bytes copied,
  or undefined behaviour when the range leaves the buffer.
\<close>

definition memcpy :: "byte list \<Rightarrow> u64 \<Rightarrow> u64 \<Rightarrow> error + byte list" where
  "memcpy src off n =
     (if unat off + unat n \<le> length src then Inr (take (unat n) (drop (unat off) src))
      else Inl (Undefined OutOfBounds))"

section \<open>DestructorExceptions\<close>

record DestructorExceptions =
  close :: "error list"

definition is_empty :: "DestructorExceptions \<Rightarrow> bool" where
  "is_empty ex = (close ex = [])"

definition clear :: "DestructorExceptions \<Rightarrow> DestructorExceptions" where
  "clear ex = ex\<lparr>close := []\<rparr>"

section \<open>Serializer\<close>

text \<open>
  The class keeps the stream, the logical write offset and the file name. Its pointer
  to the caller's \<^verbatim>\<open>DestructorExceptions\<close> is not a field of the model: the only
  member function that writes through it is the destructor, whose handler
  \<^verbatim>\<open>_exceptions->exceptions.push_back(e)\<close> names a member that
  \<^verbatim>\<open>DestructorExceptions\<close> does not declare (its one vector is \<^verbatim>\<open>close\<close>), so the
  destructor has no translation.
\<close>

record Serializer =
  s_file :: "FILE option"
  s_offset :: u64
  s_filename :: string

text \<open>
  \<^verbatim>\<open>_num_zeroes = alignof(std::max_align_t)\<close>, which is 16 on the x86-64 and AArch64
  ABIs, and \<^verbatim>\<open>_zeroes\<close>, the static buffer of that many zero bytes.
\<close>

definition num_zeroes :: u64 where
  "num_zeroes = 16"

definition zeroes :: "byte list" where
  "zeroes = replicate (unat num_zeroes) 0"

text \<open>The constructor; its first argument is what \<^verbatim>\<open>std::fopen(filename, "wb")\<close> returned.\<close>

definition Serializer_ctor :: "FILE option \<Rightarrow> string \<Rightarrow> error + Serializer" where
  "Serializer_ctor fp name =
     (case fp of
        None \<Rightarrow> Inl (WriteException name (Some ''failed to open''))
      | Some f \<Rightarrow> Inr \<lparr>s_file = Some f, s_offset = 0, s_filename = name\<rparr>)"

definition s_close :: "Serializer \<Rightarrow> error + Serializer" where
  "s_close s =
     (case s_file s of
        None \<Rightarrow> Inr s
      | Some f \<Rightarrow>
          if fclose f \<noteq> 0 then Inl (CloseException (s_filename s))
          else Inr (s\<lparr>s_file := None\<rparr>))"

text \<open>
  The move assignment is \<^verbatim>\<open>noexcept\<close> and calls \<^verbatim>\<open>_close\<close> outside any \<^verbatim>\<open>try\<close>, so
  an exception of \<^verbatim>\<open>_close\<close> ends in \<^verbatim>\<open>std::terminate\<close>. The result is the object
  assigned to; the object moved from is left with a null stream.
\<close>

definition Serializer_move_assign :: "Serializer \<Rightarrow> Serializer \<Rightarrow> error + Serializer" where
  "Serializer_move_assign this other =
     (case s_close this of
        Inl e \<Rightarrow> Inl (Terminate e)
      | Inr this' \<Rightarrow>
          Inr (this'\<lparr>s_file := s_file other, s_offset := s_offset other,
                     s_filename := s_filename other\<rparr>))"

definition s_get_offset :: "Serializer \<Rightarrow> u64" where
  "s_get_offset s = s_offset s"

definition s_set_offset :: "Serializer \<Rightarrow> u64 \<Rightarrow> error + Serializer" where
  "s_set_offset s new_offset =
     (case s_file s of
        None \<Rightarrow> Inl (Undefined NullStream)
      | Some f \<Rightarrow>
          let (ret, f') = fseek f new_offset
          in if ret \<noteq> 0 then Inl (WriteException (s_filename s) (Some ''failed to seek''))
             else Inr (s\<lparr>s_file := Some f', s_offset := new_offset\<rparr>))"

definition set_offset_aligned :: "Serializer \<Rightarrow> u64 \<Rightarrow> u64 \<Rightarrow> error + Serializer" where
  "set_offset_aligned s new_offset alignment =
     (if alignment = 0 then Inl (Undefined DivisionByZero)
      else let m = new_offset mod alignment
           in s_set_offset s (if m \<noteq> 0 then new_offset + (alignment - m) else new_offset))"

text \<open>
  \<^verbatim>\<open>write(data, size)\<close>: \<^verbatim>\<open>data\<close> is the object the pointer refers to, of which the
  first \<^verbatim>\<open>size\<close> bytes are handed to \<^verbatim>\<open>fwrite\<close>.
\<close>

definition s_write :: "Serializer \<Rightarrow> byte list \<Rightarrow> u64 \<Rightarrow> error + Serializer" where
  "s_write s data sz =
     (case s_file s of
        None \<Rightarrow> Inl (Undefined NullStream)
      | Some f \<Rightarrow>
          if length data < unat sz then Inl (Undefined OutOfBounds)
          else let (n, f') = fwrite f (take (unat sz) data)
               in if n \<noteq> unat sz then Inl (WriteException (s_filename s) None)
                  else Inr (s\<lparr>s_file := Some f', s_offset := s_offset s + sz\<rparr>))"

text \<open>The loop of \<^verbatim>\<open>write_aligned\<close> that writes the padding in chunks of \<^verbatim>\<open>_num_zeroes\<close>.\<close>

function write_padding :: "Serializer \<Rightarrow> u64 \<Rightarrow> error + Serializer" where
  "write_padding s padding =
     (if padding > num_zeroes then
        (case s_write s zeroes num_zeroes of
           Inl e \<Rightarrow> Inl e
         | Inr s' \<Rightarrow> write_padding s' (padding - num_zeroes))
      else s_write s zeroes padding)"
  by pat_completeness auto
termination
proof (relation "measure (\<lambda>(s, padding). unat padding)")
  show "wf (measure (\<lambda>(s, padding). unat padding))" by simp
next
  fix s :: Serializer and padding :: u64 and s' :: Serializer
  assume "num_zeroes < padding"
  then have "unat (padding - num_zeroes) = unat padding - unat num_zeroes"
    by (simp add: unat_sub word_less_def word_le_def)
  moreover have "0 < unat num_zeroes" by (simp add: num_zeroes_def)
  moreover have "unat num_zeroes < unat padding"
    using \<open>num_zeroes < padding\<close> by (simp add: word_less_nat_alt)
  ultimately show "((s', padding - num_zeroes), (s, padding)) \<in> measure (\<lambda>(s, padding). unat padding)"
    by simp
qed

declare write_padding.simps [simp del]

definition s_write_aligned :: "Serializer \<Rightarrow> byte list \<Rightarrow> u64 \<Rightarrow> u64 \<Rightarrow> error + Serializer" where
  "s_write_aligned s data sz alignment =
     (if alignment = 0 then Inl (Undefined DivisionByZero)
      else let m = s_offset s mod alignment
           in case (if m \<noteq> 0 then write_padding s (alignment - m) else Inr s) of
                Inl e \<Rightarrow> Inl e
              | Inr s' \<Rightarrow> s_write s' data sz)"


definition write_aligned_T :: "Serializer \<Rightarrow> byte list \<Rightarrow> u64 \<Rightarrow> error + Serializer" where
  "write_aligned_T s rep alignof_T = s_write_aligned s rep (of_nat (length rep)) alignof_T"

definition flush :: "Serializer \<Rightarrow> error + Serializer" where
  "flush s =
     (case s_file s of
        None \<Rightarrow> Inl (Undefined NullStream)
      | Some f \<Rightarrow>
          if fflush f \<noteq> 0 then Inl (WriteException (s_filename s) (Some ''failed to flush''))
          else Inr s)"

section \<open>Deserializer\<close>

record Deserializer =
  d_file :: "FILE option"
  target_page_size :: u64
  active_page_size :: u64
  file_offset_page_begin :: u64
  file_offset_page_end :: u64
  read_buffer_offset :: u64
  d_filename :: string
  read_buffer :: "byte list"

text \<open>
  The constructor; its first argument is what \<^verbatim>\<open>std::fopen(filename, "rb")\<close> returned.
  The member initialisers run before the two checks of the body. The buffer is
  \<^verbatim>\<open>page_size\<close> value-initialised bytes (the source passes the two arguments of the
  vector's constructor in the other order).
\<close>

definition Deserializer_ctor :: "FILE option \<Rightarrow> string \<Rightarrow> u64 \<Rightarrow> error + Deserializer" where
  "Deserializer_ctor fp name page_size =
     (let d = \<lparr>d_file = fp,
                target_page_size = page_size,
                active_page_size = 0,
                file_offset_page_begin = 0,
                file_offset_page_end = 0,
                read_buffer_offset = page_size,
                d_filename = name,
                read_buffer = replicate (unat page_size) 0\<rparr>
      in if fp = None then Inl (ReadException name (Some ''failed to open''))
         else if page_size = 0 then Inl (InvalidPageSizeException page_size)
         else Inr d)"

definition d_close :: "Deserializer \<Rightarrow> error + Deserializer" where
  "d_close d =
     (case d_file d of
        None \<Rightarrow> Inr d
      | Some f \<Rightarrow>
          if fclose f \<noteq> 0 then Inl (CloseException (d_filename d))
          else Inr (d\<lparr>d_file := None\<rparr>))"

text \<open>The move assignment, as the one of the Serializer.\<close>

definition Deserializer_move_assign :: "Deserializer \<Rightarrow> Deserializer \<Rightarrow> error + Deserializer" where
  "Deserializer_move_assign this other =
     (case d_close this of
        Inl e \<Rightarrow> Inl (Terminate e)
      | Inr this' \<Rightarrow>
          Inr (this'\<lparr>d_file := d_file other,
                     target_page_size := target_page_size other,
                     active_page_size := active_page_size other,
                     file_offset_page_begin := file_offset_page_begin other,
                     file_offset_page_end := file_offset_page_end other,
                     read_buffer_offset := read_buffer_offset other,
                     d_filename := d_filename other,
                     read_buffer := read_buffer other\<rparr>))"

definition get_page_size :: "Deserializer \<Rightarrow> u64" where
  "get_page_size d = target_page_size d"

text \<open>\<^verbatim>\<open>vector::resize\<close> appends value-initialised bytes.\<close>

definition set_page_size :: "Deserializer \<Rightarrow> u64 \<Rightarrow> error + Deserializer" where
  "set_page_size d new_page_size =
     (if new_page_size = 0 then Inl (InvalidPageSizeException new_page_size)
      else let d' = d\<lparr>target_page_size := new_page_size\<rparr>
           in if length (read_buffer d') < unat (target_page_size d')
              then Inr (d'\<lparr>read_buffer := read_buffer d' @
                            replicate (unat (target_page_size d') - length (read_buffer d')) 0\<rparr>)
              else Inr d')"

definition d_get_offset :: "Deserializer \<Rightarrow> u64" where
  "d_get_offset d = file_offset_page_begin d + read_buffer_offset d"

definition d_set_offset :: "Deserializer \<Rightarrow> u64 \<Rightarrow> error + Deserializer" where
  "d_set_offset d new_offset =
     (if file_offset_page_begin d \<le> new_offset
         \<and> new_offset < file_offset_page_begin d + active_page_size d
      then let delta = new_offset - file_offset_page_begin d
           in Inr (d\<lparr>read_buffer_offset := delta\<rparr>)
      else case d_file d of
             None \<Rightarrow> Inl (Undefined NullStream)
           | Some f \<Rightarrow>
               let (ret, f') = fseek f new_offset
               in if ret \<noteq> 0 then Inl (ReadException (d_filename d) None)
                  else Inr (d\<lparr>d_file := Some f',
                              file_offset_page_begin := new_offset,
                              file_offset_page_end := new_offset,
                              read_buffer_offset := active_page_size d\<rparr>))"

definition is_eof :: "Deserializer \<Rightarrow> error + bool" where
  "is_eof d = (case d_file d of None \<Rightarrow> Inl (Undefined NullStream) | Some f \<Rightarrow> Inr (feof f))"

text \<open>
  \<^verbatim>\<open>_read_page\<close>: the refill. The result is the new state and the returned
  \<^verbatim>\<open>size\<close>. The sizes and offsets are the source's. The field \<^verbatim>\<open>read_buffer\<close>
  holds what \<^verbatim>\<open>fread\<close> stores through its destination: the first \<^verbatim>\<open>n\<close> bytes are
  overwritten, the rest is as it was. The \<^verbatim>\<open>setvbuf\<close> call of the branch also makes
  this array the stream's own buffer, through which a C library may write to it
  during a later \<^verbatim>\<open>fseek\<close> or \<^verbatim>\<open>fread\<close>; the model has no such writes, so after a
  seek that follows a refill the bytes of \<^verbatim>\<open>read_buffer\<close> are those of an
  implementation that keeps its hands off the array.
\<close>

definition read_page :: "Deserializer \<Rightarrow> error + Deserializer \<times> u64" where
  "read_page d =
     (case d_file d of
        None \<Rightarrow> Inl (Undefined NullStream)
      | Some f \<Rightarrow>
          let d1 = (if active_page_size d \<noteq> target_page_size d
                    then d\<lparr>active_page_size := target_page_size d\<rparr> else d);
              sz = active_page_size d1
          in if length (read_buffer d1) < unat sz then Inl (Undefined OutOfBounds)
             else let (got, f') = fread f (unat sz);
                      n = (of_nat (length got) :: u64)
                  in if n \<noteq> sz \<and> (ferror f' \<or> \<not> feof f')
                     then Inl (ReadException (d_filename d1) None)
                     else let sz' = (if n \<noteq> sz then n else sz)
                          in Inr (d1\<lparr>d_file := Some f',
                                      read_buffer := got @ drop (length got) (read_buffer d1),
                                      file_offset_page_begin := file_offset_page_end d1,
                                      file_offset_page_end := file_offset_page_end d1 + sz',
                                      read_buffer_offset := 0\<rparr>, sz'))"

text \<open>
  The \<^verbatim>\<open>while\<close> loop of \<^verbatim>\<open>read\<close>. The bytes stored through \<^verbatim>\<open>dest\<close> so far are the
  list \<^verbatim>\<open>dest\<close>; the result is the state, those bytes and the outstanding size at
  the exit of the loop. The loop need not end (with a target page size of 0 every
  refill obtains nothing), which is the value \<^verbatim>\<open>None\<close>.
\<close>

partial_function (option) read_loop ::
  "Deserializer \<Rightarrow> byte list \<Rightarrow> u64 \<Rightarrow> (error + Deserializer \<times> byte list \<times> u64) option" where
  "read_loop d dest sz =
     (if read_buffer_offset d + sz > active_page_size d then
        let lead = active_page_size d - read_buffer_offset d
        in case memcpy (read_buffer d) (read_buffer_offset d) lead of
             Inl e \<Rightarrow> Some (Inl e)
           | Inr bs \<Rightarrow>
               (case read_page d of
                  Inl e \<Rightarrow> Some (Inl e)
                | Inr (d', n) \<Rightarrow>
                    if n < active_page_size d' \<and> n < sz - lead
                    then Some (Inl (ReadException (d_filename d')
                                      (Some ''not enough remaining bytes at current offset'')))
                    else read_loop d' (dest @ bs) (sz - lead))
      else Some (Inr (d, dest, sz)))"

declare read_loop.simps [code]

definition d_read :: "Deserializer \<Rightarrow> u64 \<Rightarrow> (error + Deserializer \<times> byte list) option" where
  "d_read d sz =
     (case read_loop d [] sz of
        None \<Rightarrow> None
      | Some (Inl e) \<Rightarrow> Some (Inl e)
      | Some (Inr (d', dest, sz')) \<Rightarrow>
          (case memcpy (read_buffer d') (read_buffer_offset d') sz' of
             Inl e \<Rightarrow> Some (Inl e)
           | Inr bs \<Rightarrow>
               Some (Inr (d'\<lparr>read_buffer_offset := read_buffer_offset d' + sz'\<rparr>, dest @ bs))))"

definition d_read_aligned :: "Deserializer \<Rightarrow> u64 \<Rightarrow> u64 \<Rightarrow> (error + Deserializer \<times> byte list) option" where
  "d_read_aligned d sz alignment =
     (if alignment = 0 then Some (Inl (Undefined DivisionByZero))
      else let m = read_buffer_offset d mod alignment
           in if m \<noteq> 0 then
                let padding = alignment - m
                in if read_buffer_offset d + padding > active_page_size d
                   then (case read_page d of
                           Inl e \<Rightarrow> Some (Inl e)
                         | Inr (d', n) \<Rightarrow> d_read d' sz)
                   else d_read (d\<lparr>read_buffer_offset := read_buffer_offset d + padding\<rparr>) sz
              else d_read d sz)"


definition read_aligned_T :: "Deserializer \<Rightarrow> nat \<Rightarrow> u64 \<Rightarrow> (error + Deserializer \<times> byte list) option" where
  "read_aligned_T d sizeof_T alignof_T = d_read_aligned d (of_nat sizeof_T) alignof_T"

section \<open>Invariants\<close>

text \<open>
  The Serializer's offset is where its stream stands, in a file no longer than the
  largest offset. The constructor over a new file establishes this and every
  successful call keeps it.
\<close>

definition s_inv :: "Serializer \<Rightarrow> bool" where
  "s_inv s =
     (case s_file s of
        None \<Rightarrow> False
      | Some f \<Rightarrow> position f = unat (s_offset s) \<and> position f \<le> LONG_MAX
                  \<and> length (contents f) \<le> LONG_MAX)"


section \<open>read_aligned as the specification words it\<close>

text \<open>
  The procedure the specification gives for \<^verbatim>\<open>read_aligned\<close>, to be compared with
  \<^verbatim>\<open>d_read_aligned\<close>, which is the source's. The padding is computed as in the
  Serializer, from the logical offset \<^verbatim>\<open>get_offset()\<close>; if the cursor plus the padding
  exceeds the active page size one refill is forced, otherwise the cursor advances by
  the padding; then comes \<^verbatim>\<open>read(size)\<close>.
\<close>

definition read_aligned_spec :: "Deserializer \<Rightarrow> u64 \<Rightarrow> u64 \<Rightarrow> (error + Deserializer \<times> byte list) option" where
  "read_aligned_spec d sz alignment =
     (if alignment = 0 then Some (Inl (Undefined DivisionByZero))
      else let pad = (alignment - d_get_offset d mod alignment) mod alignment
           in if read_buffer_offset d + pad > active_page_size d
              then (case read_page d of
                      Inl e \<Rightarrow> Some (Inl e)
                    | Inr (d', n) \<Rightarrow> d_read d' sz)
              else d_read (d\<lparr>read_buffer_offset := read_buffer_offset d + pad\<rparr>) sz)"

section \<open>Example runs\<close>

text \<open>
  A stream over stored bytes after some calls: its position, its end-of-file
  indicator and the numbers of reads and seeks so far.
\<close>

definition stream :: "byte list \<Rightarrow> nat \<Rightarrow> bool \<Rightarrow> nat \<Rightarrow> nat \<Rightarrow> FILE" where
  "stream bs pos eof r s =
     (fopen_rb bs)\<lparr>position := pos, eof_indicator := eof, reads := r, seeks := s\<rparr>"

text \<open>
  A Deserializer named \<^verbatim>\<open>r\<close> with target page size 4: the stream, the active page
  size, the page's begin and end, the buffer cursor and the buffer.
\<close>

definition reader4 :: "FILE \<Rightarrow> u64 \<Rightarrow> u64 \<Rightarrow> u64 \<Rightarrow> u64 \<Rightarrow> byte list \<Rightarrow> Deserializer" where
  "reader4 f active begin end cursor buf =
     \<lparr>d_file = Some f, target_page_size = 4, active_page_size = active,
      file_offset_page_begin = begin, file_offset_page_end = end,
      read_buffer_offset = cursor, d_filename = ''r'', read_buffer = buf\<rparr>"

text \<open>The six bytes \<^verbatim>\<open>A\<close> to \<^verbatim>\<open>F\<close>, and twelve bytes numbered from 0.\<close>

definition ABCDEF :: "byte list" where
  "ABCDEF = [65, 66, 67, 68, 69, 70]"

definition twelve :: "byte list" where
  "twelve = [0, 1, 2, 3, 4, 5, 6, 7, 8, 9, 10, 11]"

text \<open>
  A Serializer named \<^verbatim>\<open>w\<close> at offset 3 of a file that holds three bytes, and the
  stream after \<^verbatim>\<open>write_aligned\<close> of the two bytes 9 and 8 with alignment 32: the
  padding of 29 zero bytes went out in two writes, the value in a third.
\<close>

definition writer3 :: Serializer where
  "writer3 = \<lparr>s_file = Some (fopen_wb\<lparr>contents := [1, 2, 3], position := 3\<rparr>),
              s_offset = 3, s_filename = ''w''\<rparr>"

definition padded3 :: FILE where
  "padded3 = fopen_wb\<lparr>contents := [1, 2, 3] @ replicate 16 0 @ replicate 13 0 @ [9, 8],
                      position := 34, writes := 3\<rparr>"



section \<open>Properties\<close>

lemma ctor_ABCDEF:
  "Deserializer_ctor (Some (fopen_rb ABCDEF)) ''r'' 4
     = Inr (reader4 (stream ABCDEF 0 False 0 0) 0 0 0 4 [0, 0, 0, 0])"
  by code_simp

lemma ctor_twelve:
  "Deserializer_ctor (Some (fopen_rb twelve)) ''r'' 4
     = Inr (reader4 (stream twelve 0 False 0 0) 0 0 0 4 [0, 0, 0, 0])"
  by code_simp

text \<open>
  C1. Reads past the end of the data are to fail with the read error. Run on the
  six bytes with page size 4, the source does otherwise twice. Right after
  construction the cursor is 4 and the active page size 0, so the first
  \<^verbatim>\<open>read(3)\<close> computes \<^verbatim>\<open>lead = 0 - 4\<close> in \<^verbatim>\<open>uint64_t\<close> and copies that many bytes out
  of the 4-byte buffer. Started with \<^verbatim>\<open>set_offset(0)\<close> instead, \<^verbatim>\<open>read(3)\<close> gives
  \<^verbatim>\<open>ABC\<close>, the second \<^verbatim>\<open>read(3)\<close> gives \<^verbatim>\<open>DEF\<close> from a refill of 2 bytes and
  \<^verbatim>\<open>is_eof()\<close> holds, but then \<^verbatim>\<open>read(1)\<close> does not fail: the active page size is
  still 4, and the byte \<^verbatim>\<open>C\<close> left in the buffer by the first page is returned.
\<close>

theorem read_past_end_returns_stale_byte:
  "d_read (reader4 (stream ABCDEF 0 False 0 0) 0 0 0 4 [0, 0, 0, 0]) 3
     = Some (Inl (Undefined OutOfBounds))
   \<and> d_set_offset (reader4 (stream ABCDEF 0 False 0 0) 0 0 0 4 [0, 0, 0, 0]) 0
     = Inr (reader4 (stream ABCDEF 0 False 0 1) 0 0 0 0 [0, 0, 0, 0])
   \<and> d_read (reader4 (stream ABCDEF 0 False 0 1) 0 0 0 0 [0, 0, 0, 0]) 3
     = Some (Inr (reader4 (stream ABCDEF 4 False 1 1) 4 0 4 3 [65, 66, 67, 68], [65, 66, 67]))
   \<and> d_read (reader4 (stream ABCDEF 4 False 1 1) 4 0 4 3 [65, 66, 67, 68]) 3
     = Some (Inr (reader4 (stream ABCDEF 6 True 2 1) 4 4 6 2 [69, 70, 67, 68], [68, 69, 70]))
   \<and> is_eof (reader4 (stream ABCDEF 6 True 2 1) 4 4 6 2 [69, 70, 67, 68]) = Inr True
   \<and> d_read (reader4 (stream ABCDEF 6 True 2 1) 4 4 6 2 [69, 70, 67, 68]) 1
     = Some (Inr (reader4 (stream ABCDEF 6 True 2 1) 4 4 6 3 [69, 70, 67, 68], [67]))"
proof (intro conjI)
  show "d_read (reader4 (stream ABCDEF 0 False 0 0) 0 0 0 4 [0, 0, 0, 0]) 3
          = Some (Inl (Undefined OutOfBounds))"
    by (subst d_read_def, subst read_loop.simps) (simp add: memcpy_def reader4_def)
qed code_simp+

text \<open>
  C2. The cursor is to stay within the active page. The constructor breaks this: it
  sets the cursor to the page size and the active page size to 0.
\<close>

theorem ctor_cursor_beyond_active_page:
  "Deserializer_ctor (Some (fopen_rb ABCDEF)) ''r'' 4
     = Inr (reader4 (stream ABCDEF 0 False 0 0) 0 0 0 4 [0, 0, 0, 0])
   \<and> read_buffer_offset (reader4 (stream ABCDEF 0 False 0 0) 0 0 0 4 [0, 0, 0, 0]) = 4
   \<and> active_page_size (reader4 (stream ABCDEF 0 False 0 0) 0 0 0 4 [0, 0, 0, 0]) = 0
   \<and> \<not> read_buffer_offset (reader4 (stream ABCDEF 0 False 0 0) 0 0 0 4 [0, 0, 0, 0])
         \<le> active_page_size (reader4 (stream ABCDEF 0 False 0 0) 0 0 0 4 [0, 0, 0, 0])"
  by code_simp

lemma length_fread: "length (fst (fread f k)) \<le> k"
  by (simp add: fread_def Let_def)

lemma of_nat_length_eq_u64:
  assumes "n \<le> unat (sz :: u64)"
  shows "(of_nat n = sz) = (n = unat sz)"
proof
  assume "of_nat n = sz"
  then have "unat (of_nat n :: u64) = unat sz" by simp
  then show "n = unat sz"
    using le_unat_uoi [OF assms] by simp
next
  assume "n = unat sz"
  then show "of_nat n = sz" by simp
qed

text \<open>The refill, once the stream is open and the buffer holds a page of the target size.\<close>

lemma read_page_open:
  assumes "d_file d = Some f"
      and "unat (target_page_size d) \<le> length (read_buffer d)"
      and "fread f (unat (target_page_size d)) = (got, f')"
  shows "read_page d =
           (if length got < unat (target_page_size d) \<and> (ferror f' \<or> \<not> feof f')
            then Inl (ReadException (d_filename d) None)
            else Inr (d\<lparr>d_file := Some f',
                        active_page_size := target_page_size d,
                        file_offset_page_begin := file_offset_page_end d,
                        file_offset_page_end := file_offset_page_end d + of_nat (length got),
                        read_buffer_offset := 0,
                        read_buffer := got @ drop (length got) (read_buffer d)\<rparr>,
                      of_nat (length got)))"
proof -
  let ?t = "target_page_size d"
  have d1: "(if active_page_size d \<noteq> ?t then d\<lparr>active_page_size := ?t\<rparr> else d)
              = d\<lparr>active_page_size := ?t\<rparr>"
    by simp
  have le: "length got \<le> unat ?t"
    using length_fread [of f "unat ?t"] assms(3) by simp
  have buf: "\<not> length (read_buffer d) < unat ?t"
    using assms(2) by simp
  show ?thesis
  proof (cases "length got < unat ?t")
    case True
    then have ne: "(of_nat (length got) :: u64) \<noteq> ?t"
      using of_nat_length_eq_u64 [OF le] by simp
    show ?thesis
      unfolding read_page_def d1
      using True ne buf assms(1,3) by (simp add: Let_def)
  next
    case False
    then have eq: "(of_nat (length got) :: u64) = ?t"
      using of_nat_length_eq_u64 [OF le] le by simp
    show ?thesis
      unfolding read_page_def d1
      using False eq buf assms(1,3) by (simp add: Let_def)
  qed
qed


lemma read_page_InrD:
  assumes "read_page d = Inr (d', n)"
  shows "file_offset_page_begin d' = file_offset_page_end d"
    and "file_offset_page_end d' = file_offset_page_end d + n"
    and "read_buffer_offset d' = 0"
    and "active_page_size d' = target_page_size d"
    and "target_page_size d' = target_page_size d"
    and "d_filename d' = d_filename d"
    and "length (read_buffer d') = length (read_buffer d)"
    and "unat (target_page_size d) \<le> length (read_buffer d)"
proof -
  obtain f where f: "d_file d = Some f"
    using assms by (cases "d_file d") (simp_all add: read_page_def)
  have buf: "unat (target_page_size d) \<le> length (read_buffer d)"
  proof (rule ccontr)
    assume "\<not> ?thesis"
    then have "read_page d = Inl (Undefined OutOfBounds)"
      using f by (simp add: read_page_def Let_def)
    with assms show False by simp
  qed
  obtain got f' where fr: "fread f (unat (target_page_size d)) = (got, f')"
    by (cases "fread f (unat (target_page_size d))")
  have le: "length got \<le> unat (target_page_size d)"
    using length_fread [of f "unat (target_page_size d)"] fr by simp
  have d': "d' = d\<lparr>d_file := Some f',
                    active_page_size := target_page_size d,
                    file_offset_page_begin := file_offset_page_end d,
                    file_offset_page_end := file_offset_page_end d + of_nat (length got),
                    read_buffer_offset := 0,
                    read_buffer := got @ drop (length got) (read_buffer d)\<rparr>"
    and n: "n = of_nat (length got)"
    using assms read_page_open [OF f buf fr] by (auto split: if_splits)
  show "file_offset_page_begin d' = file_offset_page_end d"
    and "file_offset_page_end d' = file_offset_page_end d + n"
    and "read_buffer_offset d' = 0"
    and "active_page_size d' = target_page_size d"
    and "target_page_size d' = target_page_size d"
    and "d_filename d' = d_filename d"
    and "unat (target_page_size d) \<le> length (read_buffer d)"
    using buf by (simp_all add: d' n)
  show "length (read_buffer d') = length (read_buffer d)"
    using le buf by (simp add: d')
qed

text \<open>
  C3, as the spec states it, fails: a refill that obtains 2 of the 4 bytes asked for
  returns 2 and leaves the active page size at 4.
\<close>

theorem short_refill_keeps_active_page_size:
  "read_page (reader4 (stream ABCDEF 4 False 1 1) 4 0 4 3 [65, 66, 67, 68])
     = Inr (reader4 (stream ABCDEF 6 True 2 1) 4 4 6 0 [69, 70, 67, 68], 2)
   \<and> active_page_size (reader4 (stream ABCDEF 6 True 2 1) 4 4 6 0 [69, 70, 67, 68]) \<noteq> 2"
  by code_simp

text \<open>
  C3, amended. A refill asks the stream for as many bytes as the target page size. If
  fewer arrive and the stream reports an error or no end of file, the refill fails
  with the read error. Otherwise it succeeds: the active page size is the target page
  size, the returned size is the number of bytes obtained, the page begins at the
  old page end and ends that many bytes later, and the cursor is 0.
\<close>

theorem read_page_effect:
  assumes "d_file d = Some f"
      and "unat (target_page_size d) \<le> length (read_buffer d)"
      and "fread f (unat (target_page_size d)) = (got, f')"
  shows "(length got < unat (target_page_size d) \<and> (ferror f' \<or> \<not> feof f')
            \<longrightarrow> read_page d = Inl (ReadException (d_filename d) None))
       \<and> (\<not> (length got < unat (target_page_size d) \<and> (ferror f' \<or> \<not> feof f'))
            \<longrightarrow> (\<exists>d'. read_page d = Inr (d', of_nat (length got))
                     \<and> active_page_size d' = target_page_size d
                     \<and> file_offset_page_begin d' = file_offset_page_end d
                     \<and> file_offset_page_end d' = file_offset_page_end d + of_nat (length got)
                     \<and> read_buffer_offset d' = 0))"
  using read_page_open [OF assms] by simp

theorem read_page_effect_witness:
  "(\<exists>d'. read_page (reader4 (stream ABCDEF 4 False 1 1) 4 0 4 3 [65, 66, 67, 68]) = Inr (d', 2)
        \<and> active_page_size d' = 4
        \<and> file_offset_page_begin d' = 4
        \<and> file_offset_page_end d' = 4 + 2
        \<and> read_buffer_offset d' = 0)
   \<and> read_page (reader4 ((stream ABCDEF 4 False 1 1)\<lparr>device_fails := True\<rparr>) 4 0 4 3 [65, 66, 67, 68])
     = Inl (ReadException ''r'' None)"
proof
  let ?f = "stream ABCDEF 4 False 1 1"
  let ?f' = "stream ABCDEF 6 True 2 1"
  let ?d = "reader4 ?f 4 0 4 3 [65, 66, 67, 68]"
  have f: "fread ?f (unat (target_page_size ?d)) = ([69, 70], ?f')"
    by code_simp
  have a: "d_file ?d = Some ?f" "unat (target_page_size ?d) \<le> length (read_buffer ?d)"
    by (simp_all add: reader4_def)
  have b: "\<not> (length [69, 70 :: byte] < unat (target_page_size ?d) \<and> (ferror ?f' \<or> \<not> feof ?f'))"
    by (simp add: reader4_def stream_def fopen_rb_def feof_def ferror_def)
  from read_page_effect [OF a f] b
  have "\<exists>d'. read_page ?d = Inr (d', of_nat (length [69, 70 :: byte]))
           \<and> active_page_size d' = target_page_size ?d
           \<and> file_offset_page_begin d' = file_offset_page_end ?d
           \<and> file_offset_page_end d' = file_offset_page_end ?d + of_nat (length [69, 70 :: byte])
           \<and> read_buffer_offset d' = 0"
    by blast
  then show "\<exists>d'. read_page ?d = Inr (d', 2)
           \<and> active_page_size d' = 4
           \<and> file_offset_page_begin d' = 4
           \<and> file_offset_page_end d' = 4 + 2
           \<and> read_buffer_offset d' = 0"
    by (simp add: reader4_def)
next
  let ?g = "(stream ABCDEF 4 False 1 1)\<lparr>device_fails := True\<rparr>"
  let ?g' = "?g\<lparr>error_indicator := True, reads := 2\<rparr>"
  let ?e = "reader4 ?g 4 0 4 3 [65, 66, 67, 68]"
  have g: "fread ?g (unat (target_page_size ?e)) = ([], ?g')"
    by code_simp
  have a: "d_file ?e = Some ?g" "unat (target_page_size ?e) \<le> length (read_buffer ?e)"
    by (simp_all add: reader4_def)
  have b: "length ([] :: byte list) < unat (target_page_size ?e) \<and> (ferror ?g' \<or> \<not> feof ?g')"
    by (simp add: reader4_def ferror_def)
  from read_page_effect [OF a g] b
  have "read_page ?e = Inl (ReadException (d_filename ?e) None)"
    by blast
  then show "read_page ?e = Inl (ReadException ''r'' None)"
    by (simp add: reader4_def)
qed

text \<open>
  C4. A successful read of \<^verbatim>\<open>n\<close> bytes is to advance \<^verbatim>\<open>get_offset()\<close> by \<^verbatim>\<open>n\<close>. On
  the twelve bytes with page size 4: after \<^verbatim>\<open>set_offset(0)\<close> and \<^verbatim>\<open>read(1)\<close> the
  page 0 to 4 is buffered; \<^verbatim>\<open>set_offset(6)\<close> leaves that page and \<^verbatim>\<open>get_offset()\<close>
  is 10; the following \<^verbatim>\<open>read(1)\<close> returns the byte at offset 6 and
  \<^verbatim>\<open>get_offset()\<close> is 7, not 11.
\<close>

theorem read_after_seek_moves_offset_back:
  "d_set_offset (reader4 (stream twelve 0 False 0 0) 0 0 0 4 [0, 0, 0, 0]) 0
     = Inr (reader4 (stream twelve 0 False 0 1) 0 0 0 0 [0, 0, 0, 0])
   \<and> d_read (reader4 (stream twelve 0 False 0 1) 0 0 0 0 [0, 0, 0, 0]) 1
     = Some (Inr (reader4 (stream twelve 4 False 1 1) 4 0 4 1 [0, 1, 2, 3], [0]))
   \<and> d_set_offset (reader4 (stream twelve 4 False 1 1) 4 0 4 1 [0, 1, 2, 3]) 6
     = Inr (reader4 (stream twelve 6 False 1 2) 4 6 6 4 [0, 1, 2, 3])
   \<and> d_get_offset (reader4 (stream twelve 6 False 1 2) 4 6 6 4 [0, 1, 2, 3]) = 10
   \<and> d_read (reader4 (stream twelve 6 False 1 2) 4 6 6 4 [0, 1, 2, 3]) 1
     = Some (Inr (reader4 (stream twelve 10 False 2 2) 4 6 10 1 [6, 7, 8, 9], [6]))
   \<and> d_get_offset (reader4 (stream twelve 10 False 2 2) 4 6 10 1 [6, 7, 8, 9]) = 7"
  by (intro conjI) code_simp+

text \<open>
  C7. When \<^verbatim>\<open>pos\<close> lies in the buffered page, \<^verbatim>\<open>set_offset(pos)\<close> succeeds and
  changes the cursor only, to \<^verbatim>\<open>pos - page_begin\<close>: every other field, the stream
  with its position and its counts of reads and seeks among them, is as before, and
  \<^verbatim>\<open>get_offset()\<close> is \<^verbatim>\<open>pos\<close> afterwards. The condition is the one the source
  evaluates, in \<^verbatim>\<open>uint64_t\<close>.
\<close>

theorem set_offset_fast_path:
  assumes "file_offset_page_begin d \<le> pos"
      and "pos < file_offset_page_begin d + active_page_size d"
  shows "d_set_offset d pos = Inr (d\<lparr>read_buffer_offset := pos - file_offset_page_begin d\<rparr>)
       \<and> d_get_offset (d\<lparr>read_buffer_offset := pos - file_offset_page_begin d\<rparr>) = pos"
  using assms by (simp add: d_set_offset_def d_get_offset_def)

theorem set_offset_fast_path_witness:
  "file_offset_page_begin (reader4 (stream twelve 4 False 1 1) 4 0 4 1 [0, 1, 2, 3]) \<le> 3
   \<and> 3 < file_offset_page_begin (reader4 (stream twelve 4 False 1 1) 4 0 4 1 [0, 1, 2, 3])
         + active_page_size (reader4 (stream twelve 4 False 1 1) 4 0 4 1 [0, 1, 2, 3])
   \<and> d_set_offset (reader4 (stream twelve 4 False 1 1) 4 0 4 1 [0, 1, 2, 3]) 3
       = Inr (reader4 (stream twelve 4 False 1 1) 4 0 4 3 [0, 1, 2, 3])
   \<and> d_get_offset (reader4 (stream twelve 4 False 1 1) 4 0 4 3 [0, 1, 2, 3]) = 3"
  using set_offset_fast_path [of "reader4 (stream twelve 4 False 1 1) 4 0 4 1 [0, 1, 2, 3]" 3]
  by (simp add: reader4_def)

text \<open>
  C8. \<^verbatim>\<open>read_aligned\<close> is to pad as the Serializer does, from the logical offset.
  The source takes the remainder of the buffer cursor instead. On the twelve bytes
  with page size 4, \<^verbatim>\<open>set_offset(2)\<close> and \<^verbatim>\<open>read(1)\<close> buffer the page 2 to 6 and
  leave the cursor at 1, the logical offset at 3. Then \<^verbatim>\<open>read_aligned(1, 4)\<close> of the
  source pads by 3, to the end of the page, refills and returns the byte at offset 6.
  The procedure of the claim pads by 1 and returns the byte at offset 4, the next
  multiple of 4.
\<close>

theorem read_aligned_pads_from_cursor:
  "d_set_offset (reader4 (stream twelve 0 False 0 0) 0 0 0 4 [0, 0, 0, 0]) 2
     = Inr (reader4 (stream twelve 2 False 0 1) 0 2 2 0 [0, 0, 0, 0])
   \<and> d_read (reader4 (stream twelve 2 False 0 1) 0 2 2 0 [0, 0, 0, 0]) 1
     = Some (Inr (reader4 (stream twelve 6 False 1 1) 4 2 6 1 [2, 3, 4, 5], [2]))
   \<and> d_get_offset (reader4 (stream twelve 6 False 1 1) 4 2 6 1 [2, 3, 4, 5]) = 3
   \<and> d_read_aligned (reader4 (stream twelve 6 False 1 1) 4 2 6 1 [2, 3, 4, 5]) 1 4
     = Some (Inr (reader4 (stream twelve 10 False 2 1) 4 6 10 1 [6, 7, 8, 9], [6]))
   \<and> read_aligned_spec (reader4 (stream twelve 6 False 1 1) 4 2 6 1 [2, 3, 4, 5]) 1 4
     = Some (Inr (reader4 (stream twelve 6 False 1 1) 4 2 6 3 [2, 3, 4, 5], [4]))"
  by (intro conjI) code_simp+

text \<open>
  C9. A failing close is to reach the caller through the \<^verbatim>\<open>DestructorExceptions\<close>
  only. The move assignments close the stream they replace outside any \<^verbatim>\<open>try\<close>:
  when that close fails, the \<^verbatim>\<open>CloseException\<close> leaves a \<^verbatim>\<open>noexcept\<close> function and
  the program is terminated, with no record anywhere.
\<close>

theorem move_assign_close_failure_terminates:
  "Serializer_move_assign
       \<lparr>s_file = Some (fopen_wb\<lparr>close_fails := True\<rparr>), s_offset = 0, s_filename = ''w''\<rparr>
       \<lparr>s_file = Some fopen_wb, s_offset = 0, s_filename = ''v''\<rparr>
     = Inl (Terminate (CloseException ''w''))
   \<and> Deserializer_move_assign
       (reader4 ((stream ABCDEF 0 False 0 0)\<lparr>close_fails := True\<rparr>) 0 0 0 4 [0, 0, 0, 0])
       (reader4 (stream twelve 0 False 0 0) 0 0 0 4 [0, 0, 0, 0])
     = Inl (Terminate (CloseException ''r''))"
  by (simp add: Serializer_move_assign_def s_close_def Deserializer_move_assign_def d_close_def
        reader4_def fclose_def stream_def fopen_rb_def fopen_wb_def)

text \<open>
  C10. A constructed Deserializer reports the page size as its offset, and the first
  refill brings the offset to 0. After a \<^verbatim>\<open>set_offset(pos)\<close> that leaves the buffered
  page, \<^verbatim>\<open>get_offset()\<close> is \<^verbatim>\<open>pos\<close> plus the active page size (in \<^verbatim>\<open>uint64_t\<close>),
  which is \<^verbatim>\<open>pos\<close> only when the active page size is 0; the next refill brings it
  to \<^verbatim>\<open>pos\<close>.
\<close>

theorem get_offset_after_slow_seek:
  "(Deserializer_ctor fp name page_size = Inr d0 \<longrightarrow>
      d_get_offset d0 = page_size \<and> page_size \<noteq> 0
      \<and> (\<forall>d1 n. read_page d0 = Inr (d1, n) \<longrightarrow> d_get_offset d1 = 0))
   \<and> (\<not> (file_offset_page_begin d \<le> pos \<and> pos < file_offset_page_begin d + active_page_size d)
        \<and> d_set_offset d pos = Inr d' \<longrightarrow>
      d_get_offset d' = pos + active_page_size d
      \<and> (d_get_offset d' = pos \<longleftrightarrow> active_page_size d = 0)
      \<and> (\<forall>d'' n. read_page d' = Inr (d'', n) \<longrightarrow> d_get_offset d'' = pos))"
proof (intro conjI impI allI)
  assume c: "Deserializer_ctor fp name page_size = Inr d0"
  then show "page_size \<noteq> 0"
    by (auto simp: Deserializer_ctor_def Let_def split: if_splits)
  from c show "d_get_offset d0 = page_size"
    by (auto simp: Deserializer_ctor_def Let_def d_get_offset_def split: if_splits)
  fix d1 n
  assume "read_page d0 = Inr (d1, n)"
  from read_page_InrD(1,3) [OF this] c show "d_get_offset d1 = 0"
    by (auto simp: Deserializer_ctor_def Let_def d_get_offset_def split: if_splits)
next
  assume "\<not> (file_offset_page_begin d \<le> pos \<and> pos < file_offset_page_begin d + active_page_size d)
          \<and> d_set_offset d pos = Inr d'"
  then have d': "file_offset_page_begin d' = pos" "file_offset_page_end d' = pos"
                "read_buffer_offset d' = active_page_size d"
    by (auto simp: d_set_offset_def Let_def split: option.splits prod.splits if_splits)
  show "d_get_offset d' = pos + active_page_size d"
    by (simp add: d_get_offset_def d')
  show "(d_get_offset d' = pos) = (active_page_size d = 0)"
    by (simp add: d_get_offset_def d')
  fix d'' n
  assume "read_page d' = Inr (d'', n)"
  from read_page_InrD(1,3) [OF this] show "d_get_offset d'' = pos"
    by (simp add: d_get_offset_def d')
qed

theorem get_offset_after_slow_seek_witness:
  "Deserializer_ctor (Some (fopen_rb ABCDEF)) ''r'' 4
     = Inr (reader4 (stream ABCDEF 0 False 0 0) 0 0 0 4 [0, 0, 0, 0])
   \<and> d_get_offset (reader4 (stream ABCDEF 0 False 0 0) 0 0 0 4 [0, 0, 0, 0]) = 4
   \<and> read_page (reader4 (stream ABCDEF 0 False 0 0) 0 0 0 4 [0, 0, 0, 0])
     = Inr (reader4 (stream ABCDEF 4 False 1 0) 4 0 4 0 [65, 66, 67, 68], 4)
   \<and> d_get_offset (reader4 (stream ABCDEF 4 False 1 0) 4 0 4 0 [65, 66, 67, 68]) = 0
   \<and> \<not> (file_offset_page_begin (reader4 (stream twelve 4 False 1 1) 4 0 4 1 [0, 1, 2, 3]) \<le> 6
         \<and> 6 < file_offset_page_begin (reader4 (stream twelve 4 False 1 1) 4 0 4 1 [0, 1, 2, 3])
               + active_page_size (reader4 (stream twelve 4 False 1 1) 4 0 4 1 [0, 1, 2, 3]))
   \<and> d_set_offset (reader4 (stream twelve 4 False 1 1) 4 0 4 1 [0, 1, 2, 3]) 6
     = Inr (reader4 (stream twelve 6 False 1 2) 4 6 6 4 [0, 1, 2, 3])
   \<and> d_get_offset (reader4 (stream twelve 6 False 1 2) 4 6 6 4 [0, 1, 2, 3]) = 6 + 4
   \<and> read_page (reader4 (stream twelve 6 False 1 2) 4 6 6 4 [0, 1, 2, 3])
     = Inr (reader4 (stream twelve 10 False 2 2) 4 6 10 0 [6, 7, 8, 9], 4)
   \<and> d_get_offset (reader4 (stream twelve 10 False 2 2) 4 6 10 0 [6, 7, 8, 9]) = 6"
proof -
  let ?c = "reader4 (stream ABCDEF 0 False 0 0) 0 0 0 4 [0, 0, 0, 0]"
  let ?c' = "reader4 (stream ABCDEF 4 False 1 0) 4 0 4 0 [65, 66, 67, 68]"
  let ?d = "reader4 (stream twelve 4 False 1 1) 4 0 4 1 [0, 1, 2, 3]"
  let ?d' = "reader4 (stream twelve 6 False 1 2) 4 6 6 4 [0, 1, 2, 3]"
  let ?d'' = "reader4 (stream twelve 10 False 2 2) 4 6 10 0 [6, 7, 8, 9]"
  have 1: "Deserializer_ctor (Some (fopen_rb ABCDEF)) ''r'' 4 = Inr ?c"
    by (rule ctor_ABCDEF)
  have 2: "read_page ?c = Inr (?c', 4)" by code_simp
  have 3: "\<not> (file_offset_page_begin ?d \<le> 6
              \<and> 6 < file_offset_page_begin ?d + active_page_size ?d)"
    by (simp add: reader4_def)
  have 4: "d_set_offset ?d 6 = Inr ?d'" by code_simp
  have 5: "read_page ?d' = Inr (?d'', 4)" by code_simp
  have 6: "active_page_size ?d = 4" by (simp add: reader4_def)
  from get_offset_after_slow_seek
         [of "Some (fopen_rb ABCDEF)" "''r''" 4 ?c ?d 6 ?d'] 1 2 3 4 5 6
  show ?thesis by simp
qed

subsection \<open>Storing bytes in a file\<close>

lemma length_store_at: "length (store_at bs p ws) = max (length bs) (p + length ws)"
  by (simp add: store_at_def)

lemma store_at_append:
  "store_at (store_at bs p ws1) (p + length ws1) ws2 = store_at bs p (ws1 @ ws2)"
proof -
  let ?P = "take p bs @ replicate (p - length bs) 0"
  have P: "length ?P = p" by simp
  have X: "store_at bs p ws1 = ?P @ ws1 @ drop (p + length ws1) bs"
    by (simp add: store_at_def)
  have t: "take (p + length ws1) (?P @ ws1 @ drop (p + length ws1) bs) = ?P @ ws1"
    using P by (simp del: append_assoc add: append_assoc [symmetric])
  have len: "p + length ws1 \<le> length (store_at bs p ws1)"
    by (simp add: length_store_at)
  have d: "drop (p + length ws1 + length ws2) (?P @ ws1 @ drop (p + length ws1) bs)
             = drop (p + length ws1 + length ws2) bs"
    using P by (simp add: add.commute add.left_commute)
  have "store_at (store_at bs p ws1) (p + length ws1) ws2
          = take (p + length ws1) (store_at bs p ws1) @ ws2
              @ drop (p + length ws1 + length ws2) (store_at bs p ws1)"
    using len by (simp add: store_at_def [of "store_at bs p ws1"])
  also have "\<dots> = (?P @ ws1) @ ws2 @ drop (p + length ws1 + length ws2) bs"
    unfolding X t d ..
  also have "\<dots> = store_at bs p (ws1 @ ws2)"
    by (simp add: store_at_def add.assoc)
  finally show ?thesis .
qed

lemma written_append:
  "written (written bs p ws1) (p + length ws1) ws2 = written bs p (ws1 @ ws2)"
  by (simp add: written_def store_at_append)



subsection \<open>What the Serializer writes\<close>

lemma LONG_MAX_less: "LONG_MAX < 2 ^ 64"
  by (simp add: LONG_MAX_def)

lemma s_write_Inr:
  assumes f: "s_file s = Some f"
      and pos: "position f = unat (s_offset s)"
      and w: "s_write s data sz = Inr s'"
  shows "\<exists>f'. s' = s\<lparr>s_file := Some f', s_offset := s_offset s + sz\<rparr>
            \<and> position f' = unat (s_offset s) + unat sz
            \<and> unat (s_offset s + sz) = unat (s_offset s) + unat sz
            \<and> contents f' = written (contents f) (position f) (take (unat sz) data)
            \<and> unat sz \<le> length data"
proof -
  have len: "unat sz \<le> length data"
    using w f by (auto simp: s_write_def split: if_splits)
  then have lt: "length (take (unat sz) data) = unat sz" by simp
  obtain k f' where fw: "fwrite f (take (unat sz) data) = (k, f')"
    by (cases "fwrite f (take (unat sz) data)")
  have k: "k = unat sz" and s': "s' = s\<lparr>s_file := Some f', s_offset := s_offset s + sz\<rparr>"
    using w f len fw by (auto simp: s_write_def split: if_splits)
  have kdef: "k = (if device_fails f then 0 else min (unat sz) (LONG_MAX - position f))"
    and cf: "contents f' = (if k = 0 then contents f
                            else store_at (contents f) (position f) (take k (take (unat sz) data)))"
    and pf: "position f' = position f + k"
    using fw lt by (auto simp: fwrite_def Let_def)
  have room: "unat (s_offset s) + unat sz < 2 ^ 64"
  proof (cases "unat sz = 0")
    case True
    then show ?thesis using unsigned_less [of "s_offset s", where 'a = nat] by simp
  next
    case False
    with k kdef have "unat sz \<le> LONG_MAX - position f"
      by (auto split: if_splits)
    with False have "position f + unat sz \<le> LONG_MAX" by simp
    then show ?thesis using LONG_MAX_less pos by simp
  qed
  have c: "contents f' = written (contents f) (position f) (take (unat sz) data)"
    using k lt by (auto simp: cf written_def)
  have p: "position f' = unat (s_offset s) + unat sz"
    using k pos by (simp add: pf)
  from room have "unat (s_offset s + sz) = unat (s_offset s) + unat sz"
    by (simp add: unat_add_lem [THEN iffD1])
  with s' c p len show ?thesis by blast
qed

lemma write_padding_Inr:
  assumes "s_file s = Some f"
      and "position f = unat (s_offset s)"
      and "write_padding s padding = Inr s'"
  shows "\<exists>f'. s' = s\<lparr>s_file := Some f', s_offset := s_offset s + padding\<rparr>
            \<and> position f' = unat (s_offset s) + unat padding
            \<and> unat (s_offset s + padding) = unat (s_offset s) + unat padding
            \<and> contents f' = written (contents f) (position f) (replicate (unat padding) 0)"
  using assms
proof (induction s padding arbitrary: f rule: write_padding.induct)
  case (1 s padding)
  have z: "length zeroes = unat num_zeroes" by (simp add: zeroes_def)
  show ?case
  proof (cases "padding > num_zeroes")
    case True
    then obtain s1 where s1: "s_write s zeroes num_zeroes = Inr s1"
      and rest: "write_padding s1 (padding - num_zeroes) = Inr s'"
      using "1.prems"(3) by (subst (asm) write_padding.simps) (auto split: sum.splits)
    from s_write_Inr [OF "1.prems"(1,2) s1] obtain f1 where
      f1: "s1 = s\<lparr>s_file := Some f1, s_offset := s_offset s + num_zeroes\<rparr>"
      and p1: "position f1 = unat (s_offset s) + unat num_zeroes"
      and u1: "unat (s_offset s + num_zeroes) = unat (s_offset s) + unat num_zeroes"
      and c1: "contents f1 = written (contents f) (position f) (take (unat num_zeroes) zeroes)"
      by blast
    have a: "s_file s1 = Some f1" and b: "position f1 = unat (s_offset s1)"
      using f1 p1 u1 by simp_all
    from "1.IH" [OF True s1 a b rest] obtain f' where
      s': "s' = s1\<lparr>s_file := Some f', s_offset := s_offset s1 + (padding - num_zeroes)\<rparr>"
      and p': "position f' = unat (s_offset s1) + unat (padding - num_zeroes)"
      and u': "unat (s_offset s1 + (padding - num_zeroes))
                 = unat (s_offset s1) + unat (padding - num_zeroes)"
      and c': "contents f' = written (contents f1) (position f1)
                               (replicate (unat (padding - num_zeroes)) 0)"
      by blast
    have le: "unat num_zeroes \<le> unat padding"
      using True by (simp add: word_less_nat_alt)
    have sub: "unat (padding - num_zeroes) = unat padding - unat num_zeroes"
      using True by (simp add: unat_sub)
    have off: "s_offset s1 + (padding - num_zeroes) = s_offset s + padding"
      by (simp add: f1)
    have rep: "take (unat num_zeroes) zeroes @ replicate (unat (padding - num_zeroes)) 0
                 = replicate (unat padding) (0 :: byte)"
      using le by (simp add: zeroes_def sub replicate_add [symmetric])
    have "contents f' = written (contents f) (position f)
                          (take (unat num_zeroes) zeroes @ replicate (unat (padding - num_zeroes)) 0)"
      using c' c1 p1 "1.prems"(2) z written_append [of "contents f" "position f" "take (unat num_zeroes) zeroes"]
      by simp
    then have "contents f' = written (contents f) (position f) (replicate (unat padding) 0)"
      by (simp only: rep)
    moreover have "s' = s\<lparr>s_file := Some f', s_offset := s_offset s + padding\<rparr>"
      using s' off by (simp add: f1)
    moreover have "position f' = unat (s_offset s) + unat padding"
      using p' sub le u1 by (simp add: f1)
    moreover have "unat (s_offset s + padding) = unat (s_offset s) + unat padding"
      using u' sub le u1 off by (simp add: f1)
    ultimately show ?thesis by blast
  next
    case False
    then have w: "s_write s zeroes padding = Inr s'"
      using "1.prems"(3) by (subst (asm) write_padding.simps) simp
    have le: "unat padding \<le> unat num_zeroes"
      using False by (simp add: word_less_nat_alt)
    then have "take (unat padding) zeroes = replicate (unat padding) 0"
      by (simp add: zeroes_def min_def)
    with s_write_Inr [OF "1.prems"(1,2) w] show ?thesis by auto
  qed
qed

lemma pad_to_multiple:
  fixes x a :: nat
  assumes "0 < a"
  shows "(x + (a - x mod a)) mod a = 0"
proof -
  have "x mod a < a" using assms by simp
  moreover have "x = a * (x div a) + x mod a" by simp
  ultimately have "x + (a - x mod a) = a * (x div a) + a" by arith
  then show ?thesis by simp
qed

lemma s_write_aligned_Inr:
  assumes f: "s_file s = Some f"
      and pos: "position f = unat (s_offset s)"
      and w: "s_write_aligned s data sz alignment = Inr s'"
  shows "\<exists>pad f'. pad = (unat alignment - unat (s_offset s) mod unat alignment) mod unat alignment
           \<and> alignment \<noteq> 0
           \<and> pad \<le> unat alignment - 1
           \<and> unat (s_offset s + of_nat pad) = unat (s_offset s) + pad
           \<and> (s_offset s + of_nat pad) mod alignment = 0
           \<and> s' = s\<lparr>s_file := Some f', s_offset := s_offset s + of_nat pad + sz\<rparr>
           \<and> position f' = unat (s_offset s) + pad + unat sz
           \<and> unat (s_offset s + of_nat pad + sz) = unat (s_offset s) + pad + unat sz
           \<and> unat sz \<le> length data
           \<and> contents f' = written (contents f) (position f) (replicate pad 0 @ take (unat sz) data)"
proof -
  let ?m = "s_offset s mod alignment"
  have a0: "alignment \<noteq> 0"
    using w by (auto simp: s_write_aligned_def split: if_splits)
  then have apos: "0 < unat alignment"
    by (simp add: unat_gt_0)
  have um: "unat ?m = unat (s_offset s) mod unat alignment"
    by (simp add: unat_mod)
  show ?thesis
  proof (cases "?m = 0")
    case True
    then have w': "s_write s data sz = Inr s'"
      using w a0 by (simp add: s_write_aligned_def)
    have m0: "unat (s_offset s) mod unat alignment = 0"
      using True um by simp
    have d: "s_offset s mod alignment = 0" using True .
    from s_write_Inr [OF f pos w'] obtain f' where
      "s' = s\<lparr>s_file := Some f', s_offset := s_offset s + sz\<rparr>"
      "position f' = unat (s_offset s) + unat sz"
      "unat (s_offset s + sz) = unat (s_offset s) + unat sz"
      "contents f' = written (contents f) (position f) (take (unat sz) data)"
      "unat sz \<le> length data"
      by blast
    with m0 a0 d show ?thesis
      by (intro exI [of _ 0] exI [of _ f']) simp
  next
    case False
    let ?padding = "alignment - ?m"
    obtain s1 where p: "write_padding s ?padding = Inr s1" and w': "s_write s1 data sz = Inr s'"
      using w a0 False by (auto simp: s_write_aligned_def Let_def split: sum.splits)
    have mlt: "unat ?m < unat alignment"
      using um apos by simp
    then have "?m \<le> alignment" by (simp add: word_le_nat_alt)
    then have up: "unat ?padding = unat alignment - unat ?m"
      by (simp add: unat_sub)
    have mpos: "0 < unat ?m"
      using False by (simp add: unat_gt_0)
    have pad: "(unat alignment - unat (s_offset s) mod unat alignment) mod unat alignment
                 = unat ?padding"
      using up um mlt mpos by simp
    have le: "unat ?padding \<le> unat alignment - 1"
      using up mpos by simp
    have op: "(of_nat (unat ?padding) :: u64) = ?padding" by simp
    from write_padding_Inr [OF f pos p] obtain f1 where
      s1: "s1 = s\<lparr>s_file := Some f1, s_offset := s_offset s + ?padding\<rparr>"
      and p1: "position f1 = unat (s_offset s) + unat ?padding"
      and u1: "unat (s_offset s + ?padding) = unat (s_offset s) + unat ?padding"
      and c1: "contents f1 = written (contents f) (position f) (replicate (unat ?padding) 0)"
      by blast
    have f1: "s_file s1 = Some f1" and pos1: "position f1 = unat (s_offset s1)"
      using p1 u1 by (simp_all add: s1)
    from s_write_Inr [OF f1 pos1 w'] obtain f' where
      s': "s' = s1\<lparr>s_file := Some f', s_offset := s_offset s1 + sz\<rparr>"
      and p': "position f' = unat (s_offset s1) + unat sz"
      and u': "unat (s_offset s1 + sz) = unat (s_offset s1) + unat sz"
      and c': "contents f' = written (contents f1) (position f1) (take (unat sz) data)"
      and len: "unat sz \<le> length data"
      by blast
    have "unat ((s_offset s + ?padding) mod alignment)
            = (unat (s_offset s) + (unat alignment - unat (s_offset s) mod unat alignment))
                mod unat alignment"
      using u1 up um by (simp add: unat_mod)
    then have "unat ((s_offset s + ?padding) mod alignment) = 0"
      using pad_to_multiple [OF apos] by simp
    then have dv: "(s_offset s + ?padding) mod alignment = 0"
      by (simp add: unat_eq_0)
    have c: "contents f' = written (contents f) (position f)
                             (replicate (unat ?padding) 0 @ take (unat sz) data)"
      using c' c1 p1 pos
        written_append [of "contents f" "position f" "replicate (unat ?padding) 0"]
      by simp
    have e: "s' = s\<lparr>s_file := Some f', s_offset := s_offset s + ?padding + sz\<rparr>"
      using s' by (simp add: s1)
    have pf: "position f' = unat (s_offset s) + unat ?padding + unat sz"
      using p' u1 by (simp add: s1)
    have uf: "unat (s_offset s + ?padding + sz) = unat (s_offset s) + unat ?padding + unat sz"
      using u' u1 by (simp add: s1)
    define n where "n = unat ?padding"
    have on: "(of_nat n :: u64) = ?padding" by (simp add: n_def)
    have 1: "n = (unat alignment - unat (s_offset s) mod unat alignment) mod unat alignment"
      using pad by (simp add: n_def)
    have 2: "n \<le> unat alignment - 1"
      using le by (simp add: n_def)
    have 3: "unat (s_offset s + of_nat n) = unat (s_offset s) + n"
      unfolding on using u1 by (simp add: n_def)
    have 4: "(s_offset s + of_nat n) mod alignment = 0"
      unfolding on using dv .
    have 5: "s' = s\<lparr>s_file := Some f', s_offset := s_offset s + of_nat n + sz\<rparr>"
      unfolding on using e .
    have 6: "position f' = unat (s_offset s) + n + unat sz"
      using pf by (simp add: n_def)
    have 7: "unat (s_offset s + of_nat n + sz) = unat (s_offset s) + n + unat sz"
      unfolding on using uf by (simp add: n_def)
    have 8: "contents f' = written (contents f) (position f)
                             (replicate n 0 @ take (unat sz) data)"
      using c by (simp add: n_def)
    show ?thesis
      by (intro exI [of _ n] exI [of _ f'] conjI) (rule 1 a0 2 3 4 5 6 7 len 8)+
  qed
qed

text \<open>
  C6. Let \<^verbatim>\<open>write_aligned(v, a)\<close> succeed on a Serializer whose offset is where its
  stream stands. Then \<^verbatim>\<open>a\<close> is not 0 and there is a padding
  \<^verbatim>\<open>pad = (a - offset % a) % a\<close> of at most \<^verbatim>\<open>a - 1\<close> bytes such that: the offset
  at which \<^verbatim>\<open>v\<close> begins, the old offset plus \<^verbatim>\<open>pad\<close> (which does not wrap around),
  is a multiple of \<^verbatim>\<open>a\<close>; the file afterwards is the file before with \<^verbatim>\<open>pad\<close> zero
  bytes and then the bytes of \<^verbatim>\<open>v\<close> stored at the old offset; the offset afterwards
  is the old one plus \<^verbatim>\<open>pad\<close> plus the size of \<^verbatim>\<open>v\<close>.
\<close>

theorem write_aligned_pads_with_zeroes:
  assumes "s_file s = Some f"
      and "position f = unat (s_offset s)"
      and "s_write_aligned s data sz alignment = Inr s'"
  shows "\<exists>pad f'. pad = (unat alignment - unat (s_offset s) mod unat alignment) mod unat alignment
           \<and> alignment \<noteq> 0
           \<and> pad \<le> unat alignment - 1
           \<and> unat (s_offset s + of_nat pad) = unat (s_offset s) + pad
           \<and> (s_offset s + of_nat pad) mod alignment = 0
           \<and> s_file s' = Some f'
           \<and> s_offset s' = s_offset s + of_nat pad + sz
           \<and> contents f' = written (contents f) (position f) (replicate pad 0 @ take (unat sz) data)"
  using s_write_aligned_Inr [OF assms]
  by (elim exE conjE, intro exI conjI) (assumption | simp)+

theorem write_aligned_pads_with_zeroes_witness:
  "s_file writer3 = Some (fopen_wb\<lparr>contents := [1, 2, 3], position := 3\<rparr>)
   \<and> position (fopen_wb\<lparr>contents := [1, 2, 3], position := 3\<rparr>) = unat (s_offset writer3)
   \<and> s_write_aligned writer3 [9, 8] 2 32 = Inr (writer3\<lparr>s_file := Some padded3, s_offset := 34\<rparr>)
   \<and> (\<exists>pad f'. pad = (unat (32 :: u64) - unat (s_offset writer3) mod unat (32 :: u64)) mod unat (32 :: u64)
           \<and> (32 :: u64) \<noteq> 0
           \<and> pad \<le> unat (32 :: u64) - 1
           \<and> unat (s_offset writer3 + of_nat pad) = unat (s_offset writer3) + pad
           \<and> (s_offset writer3 + of_nat pad) mod 32 = 0
           \<and> s_file (writer3\<lparr>s_file := Some padded3, s_offset := 34\<rparr>) = Some f'
           \<and> s_offset (writer3\<lparr>s_file := Some padded3, s_offset := 34\<rparr>)
                = s_offset writer3 + of_nat pad + 2
           \<and> contents f' = written (contents (fopen_wb\<lparr>contents := [1, 2, 3], position := 3\<rparr>))
                               (position (fopen_wb\<lparr>contents := [1, 2, 3], position := 3\<rparr>))
                               (replicate pad 0 @ take (unat (2 :: u64)) [9, 8]))"
proof -
  have 1: "s_file writer3 = Some (fopen_wb\<lparr>contents := [1, 2, 3], position := 3\<rparr>)"
    by (simp add: writer3_def)
  have 2: "position (fopen_wb\<lparr>contents := [1, 2, 3], position := 3\<rparr>) = unat (s_offset writer3)"
    by (simp add: writer3_def)
  have 3: "s_write_aligned writer3 [9, 8] 2 32
             = Inr (writer3\<lparr>s_file := Some padded3, s_offset := 34\<rparr>)"
    by (simp add: s_write_aligned_def writer3_def padded3_def write_padding.simps s_write_def
          fwrite_def zeroes_def num_zeroes_def LONG_MAX_def Let_def fopen_wb_def store_at_def)
  note 4 = write_aligned_pads_with_zeroes [OF 1 2 3]
  show ?thesis
    by (intro conjI) (rule 1 2 3 4)+
qed

subsection \<open>Reading what the file holds\<close>








lemma sint_nonneg_u64:
  assumes "\<not> sint (w :: u64) < 0"
  shows "nat (sint w) = unat w" and "unat w \<le> LONG_MAX"
proof -
  have ge: "0 \<le> sint w" using assms by simp
  have lt: "sint w < 2 ^ 63" using sint_less [of w] by simp
  have "uint (word_of_int (sint w) :: u64) = take_bit LENGTH(64) (sint w)"
    by (rule uint_word_of_int_eq)
  moreover have "(word_of_int (sint w) :: u64) = w" by simp
  ultimately have "uint w = take_bit 64 (sint w)" by simp
  also have "\<dots> = sint w"
    using ge lt by (intro take_bit_int_eq_self) simp_all
  finally have u: "uint w = sint w" .
  have "nat (uint w) = unat w" by simp
  then show "nat (sint w) = unat w" by (simp only: u)
  have "int (unat w) = uint w" by simp
  then have "int (unat w) < 2 ^ 63" using lt by (simp only: u)
  then have "unat w < 2 ^ 63"
    by (metis of_nat_less_iff of_nat_numeral of_nat_power)
  then show "unat w \<le> LONG_MAX" by (simp add: LONG_MAX_def)
qed




subsection \<open>The Serializer's offset and its stream\<close>

lemma s_inv_ctor: "Serializer_ctor (Some fopen_wb) name = Inr s \<Longrightarrow> s_inv s"
  by (auto simp: Serializer_ctor_def s_inv_def fopen_wb_def)

lemma s_inv_set_offset:
  assumes "s_inv s" and "s_set_offset s off = Inr s'"
  shows "s_inv s'"
proof -
  from assms(1) obtain f where f: "s_file s = Some f"
    and L: "length (contents f) \<le> LONG_MAX"
    by (cases "s_file s") (simp_all add: s_inv_def)
  have ok: "\<not> sint off < 0"
    and s': "s' = s\<lparr>s_file := Some (f\<lparr>position := nat (sint off), eof_indicator := False,
                                      seeks := seeks f + 1\<rparr>),
                    s_offset := off\<rparr>"
    using assms(2) f by (auto simp: s_set_offset_def fseek_def split: if_splits)
  from sint_nonneg_u64 [OF ok] L show ?thesis
    by (simp add: s_inv_def s')
qed


text \<open>A read of ten bytes from offset 1 with page size 4 takes three refills.\<close>

lemma read_spans_pages:
  "d_read (reader4 (stream twelve 1 False 0 1) 0 1 1 0 [0, 0, 0, 0]) 10
     = Some (Inr (reader4 (stream twelve 12 True 3 1) 4 9 12 2 [9, 10, 11, 8],
                  [1, 2, 3, 4, 5, 6, 7, 8, 9, 10]))"
  by code_simp



end
